theory Spec2Isabelle
  imports Main
begin

section \<open>Row grouping plugin of the grid (grouping.row.plugin.ts)\<close>

text \<open>
  The plugin \<^verbatim>\<open>GroupingRowPlugin\<close> reacts to grid events. It reads and writes the
  row store (source records, the two index lists, the named hidden-row maps),
  flags one column as the grouping indicator, and delegates the building of the
  grouped source and the expand and collapse steps to services of the same
  repository. Mutation is modelled by explicit state passing, a JavaScript
  \<^verbatim>\<open>undefined\<close> by \<open>None\<close>, and a thrown \<^verbatim>\<open>TypeError\<close> by \<open>Inl TypeError\<close>.
\<close>

subsection \<open>JavaScript values and records\<close>

text \<open>The values a field holds; the numbers are the integers.\<close>

datatype jsval = JUndefined | JBool bool | JNum int | JStr string

text \<open>What a handler can throw: a \<^verbatim>\<open>TypeError\<close> on a field read of \<^verbatim>\<open>undefined\<close>, or the
  error of the expand service on a record it does not accept.\<close>

datatype error = TypeError | ServiceError

text \<open>A record (\<^verbatim>\<open>RevoGrid.DataType\<close>) is an open mapping from field names to values.
  An array slot that holds \<^verbatim>\<open>undefined\<close> is \<open>None\<close>.\<close>

type_synonym DataType = "string \<rightharpoonup> jsval"
type_synonym Model = "DataType option"
type_synonym Column = "string \<rightharpoonup> jsval"

text \<open>\<^verbatim>\<open>xs[i]\<close>: reading an array outside its range gives \<^verbatim>\<open>undefined\<close>.\<close>

definition js_nth :: "'a list \<Rightarrow> int \<Rightarrow> 'a option" where
  "js_nth xs i = (if 0 \<le> i \<and> nat i < length xs then Some (xs ! nat i) else None)"

text \<open>\<^verbatim>\<open>source[i]\<close> on an array of records whose slots may be \<^verbatim>\<open>undefined\<close>;
  the index is a stored physical index.\<close>

definition source_at :: "Model list \<Rightarrow> nat \<Rightarrow> Model" where
  "source_at src i = (if i < length src then src ! i else None)"

text \<open>\<^verbatim>\<open>model[key]\<close> on a defined record: an absent field reads as \<^verbatim>\<open>undefined\<close>.\<close>

definition field :: "DataType \<Rightarrow> string \<Rightarrow> jsval" where
  "field m k = (case m k of None \<Rightarrow> JUndefined | Some v \<Rightarrow> v)"

text \<open>The truth value JavaScript gives a value in a condition.\<close>

fun truthy :: "jsval \<Rightarrow> bool" where
  "truthy JUndefined = False"
| "truthy (JBool b) = b"
| "truthy (JNum n) = (n \<noteq> 0)"
| "truthy (JStr s) = (s \<noteq> [])"

text \<open>A value used as an object key is converted to a string.\<close>

fun digits :: "nat \<Rightarrow> string" where
  "digits n = (if n < 10 then [char_of (48 + n)]
               else digits (n div 10) @ [char_of (48 + n mod 10)])"

declare digits.simps [simp del]

fun toPropertyKey :: "jsval \<Rightarrow> string" where
  "toPropertyKey JUndefined = ''undefined''"
| "toPropertyKey (JBool b) = (if b then ''true'' else ''false'')"
| "toPropertyKey (JNum n) = (if n < 0 then CHR ''-'' # digits (nat (- n)) else digits (nat n))"
| "toPropertyKey (JStr s) = s"

subsection \<open>Constants and predicates of the grouping service\<close>

definition TRIMMED_GROUPING :: string where
  "TRIMMED_GROUPING = ''grouping''"

text \<open>Modelled from the spec: the constants of \<^verbatim>\<open>grouping.const\<close> are not under src/.
  \<^verbatim>\<open>PSEUDO_GROUP_ITEM\<close> names the field that marks a group-header record; the spec
  calls it \<^verbatim>\<open>isGroup\<close>.\<close>

definition PSEUDO_GROUP_ITEM :: string where
  "PSEUDO_GROUP_ITEM = ''isGroup''"

text \<open>Modelled from the spec: \<^verbatim>\<open>PSEUDO_GROUP_ITEM_VALUE\<close> of \<^verbatim>\<open>grouping.const\<close> (not under
  src/) names the field that holds the key value of a group header; the spec calls it
  \<^verbatim>\<open>groupValue\<close>.\<close>

definition PSEUDO_GROUP_ITEM_VALUE :: string where
  "PSEUDO_GROUP_ITEM_VALUE = ''groupValue''"

text \<open>Modelled from the spec: \<^verbatim>\<open>GROUP_EXPANDED\<close> of \<^verbatim>\<open>grouping.const\<close> (not under src/)
  names the field that holds the expanded state of a group header; the spec calls it
  \<^verbatim>\<open>expanded\<close>.\<close>

definition GROUP_EXPANDED :: string where
  "GROUP_EXPANDED = ''expanded''"

text \<open>Modelled from the spec: \<^verbatim>\<open>PSEUDO_GROUP_COLUMN\<close> of \<^verbatim>\<open>grouping.const\<close> (not under
  src/) names the field of a column that is the grouping-indicator flag.\<close>

definition PSEUDO_GROUP_COLUMN :: string where
  "PSEUDO_GROUP_COLUMN = ''groupingIndicator''"

text \<open>Modelled from the spec: \<^verbatim>\<open>isGrouping\<close> of \<^verbatim>\<open>grouping.service\<close> is not under src/.
  A record is a group header when it carries \<^verbatim>\<open>isGroup = true\<close>; an absent record
  carries nothing.\<close>

fun isGrouping :: "Model \<Rightarrow> bool" where
  "isGrouping None = False"
| "isGrouping (Some m) = (m PSEUDO_GROUP_ITEM = Some (JBool True))"

text \<open>Modelled from the spec: \<^verbatim>\<open>isGroupingColumn\<close> of \<^verbatim>\<open>grouping.service\<close> is not under
  src/. A column carries the grouping-indicator flag when the flag field is present.\<close>

definition isGroupingColumn :: "Column \<Rightarrow> bool" where
  "isGroupingColumn c = (c PSEUDO_GROUP_COLUMN \<noteq> None)"

subsection \<open>The row store\<close>

record RowStore =
  source :: "Model list"
  proxyItems :: "nat list"
  items :: "nat list"
  trimmed :: "string \<rightharpoonup> (nat \<rightharpoonup> bool)"
  groupingDepth :: "nat option"

subsection \<open>getSource\<close>

record SourceGather =
  gather_source :: "Model list"
  gather_prevExpanded :: "string \<rightharpoonup> bool"

text \<open>The callback of \<^verbatim>\<open>items.reduce\<close> in \<^verbatim>\<open>getSource\<close>.\<close>

definition getSource_step :: "Model list \<Rightarrow> bool \<Rightarrow> SourceGather \<Rightarrow> nat \<Rightarrow> SourceGather" where
  "getSource_step src withoutGrouping result i =
     (let model = source_at src i in
      if \<not> withoutGrouping then result\<lparr>gather_source := gather_source result @ [model]\<rparr>
      else if \<not> isGrouping model then result\<lparr>gather_source := gather_source result @ [model]\<rparr>
      else (case model of
              None \<Rightarrow> result
            | Some m \<Rightarrow>
                if truthy (field m GROUP_EXPANDED)
                then result\<lparr>gather_prevExpanded :=
                       (gather_prevExpanded result)
                         (toPropertyKey (field m PSEUDO_GROUP_ITEM_VALUE) \<mapsto> True)\<rparr>
                else result))"

definition getSource :: "RowStore \<Rightarrow> bool \<Rightarrow> SourceGather" where
  "getSource rowStore withoutGrouping =
     foldl (getSource_step (source rowStore) withoutGrouping)
       \<lparr>gather_source = [], gather_prevExpanded = Map.empty\<rparr>
       (proxyItems rowStore)"

subsection \<open>Focus, drag and filter handlers\<close>

text \<open>\<^verbatim>\<open>onFocus\<close>: the result says whether \<^verbatim>\<open>e.preventDefault()\<close> was called;
  the argument is \<^verbatim>\<open>e.detail.model\<close>.\<close>

definition onFocus :: "Model \<Rightarrow> bool" where
  "onFocus model = (if isGrouping model then True else False)"

text \<open>The \<^verbatim>\<open>for\<close> loop of \<^verbatim>\<open>onDrag\<close>; \<^verbatim>\<open>items[i]\<close> outside the list is \<^verbatim>\<open>undefined\<close> and
  so is \<^verbatim>\<open>source[undefined]\<close>. The result says whether the loop left through
  \<^verbatim>\<open>e.preventDefault()\<close>.\<close>

definition drag_model :: "Model list \<Rightarrow> nat list \<Rightarrow> int \<Rightarrow> Model" where
  "drag_model src its i = (case js_nth its i of None \<Rightarrow> None | Some p \<Rightarrow> source_at src p)"

function onDrag_loop :: "Model list \<Rightarrow> nat list \<Rightarrow> int \<Rightarrow> int \<Rightarrow> bool" where
  "onDrag_loop src its i endi =
     (if i < endi
      then (if isGrouping (drag_model src its i) then True
            else onDrag_loop src its (i + 1) endi)
      else False)"
  by pat_completeness auto
termination
  by (relation "measure (\<lambda>(src, its, i, endi). nat (endi - i))") auto

declare onDrag_loop.simps [simp del]

text \<open>\<^verbatim>\<open>onDrag\<close> reads the store and writes nothing to it; the store is returned
  as it was, with the flag that says whether the event was prevented.\<close>

definition onDrag :: "RowStore \<Rightarrow> int \<Rightarrow> int \<Rightarrow> RowStore \<times> bool" where
  "onDrag rowStore from to =
     (let isDown = (to - from \<ge> 0);
          src = gather_source (getSource rowStore False);
          its = items rowStore;
          i = (if isDown then from else to);
          endi = (if isDown then to else from)
      in (rowStore, onDrag_loop src its i endi))"

text \<open>\<^verbatim>\<open>beforeFilterApply\<close>: the \<^verbatim>\<open>for ... in\<close> loop visits every entry of
  \<^verbatim>\<open>itemsToFilter\<close> once and writes at most that entry; the object is the list of
  its entries.\<close>

fun beforeFilterApply :: "(nat \<times> bool) list \<Rightarrow> Model list \<Rightarrow> (nat \<times> bool) list" where
  "beforeFilterApply [] src = []"
| "beforeFilterApply ((index, v) # rest) src =
     (if v \<and> isGrouping (source_at src index) then (index, False) else (index, v))
       # beforeFilterApply rest src"

subsection \<open>Options and the services the plugin calls\<close>

text \<open>Modelled from the spec: the type \<^verbatim>\<open>GroupingOptions\<close> of \<^verbatim>\<open>grouping.row.types\<close> is
  not under src/. The grouping configuration is the ordered list of key fields (empty
  or absent: no grouping) with an optional default-expanded policy.\<close>

record GroupingOptions =
  props :: "string list option"
  expandedAll :: "bool option"

text \<open>Modelled from the spec: the type \<^verbatim>\<open>ExpandedOptions\<close> of \<^verbatim>\<open>grouping.service\<close> is not
  under src/. The options of the builder carry the previous expansion memory, a map
  from group key value to expanded state, and the default-expanded policy.\<close>

record ExpandedOptions =
  prevExpanded :: "(string \<rightharpoonup> bool) option"
  expanded_all :: "bool option"

text \<open>A \<^verbatim>\<open>GroupingOptions\<close> object spread into builder options: it has no
  \<^verbatim>\<open>prevExpanded\<close> key.\<close>

definition spreadOptions :: "GroupingOptions \<Rightarrow> ExpandedOptions" where
  "spreadOptions opts = \<lparr>prevExpanded = None, expanded_all = expandedAll opts\<rparr>"

text \<open>\<^verbatim>\<open>{ prevExpanded, ...options }\<close>: a key of \<^verbatim>\<open>options\<close> overrides the captured
  memory.\<close>

definition mergeOptions :: "(string \<rightharpoonup> bool) \<Rightarrow> ExpandedOptions option \<Rightarrow> ExpandedOptions" where
  "mergeOptions captured opts =
     (case opts of
        None \<Rightarrow> \<lparr>prevExpanded = Some captured, expanded_all = None\<rparr>
      | Some ex \<Rightarrow>
          \<lparr>prevExpanded = (case prevExpanded ex of None \<Rightarrow> Some captured | Some pe \<Rightarrow> Some pe),
           expanded_all = expanded_all ex\<rparr>)"

text \<open>The key extractor passed to the builder, \<^verbatim>\<open>item => props.map(key => item[key])\<close>:
  reading a field of \<^verbatim>\<open>undefined\<close> throws.\<close>

definition groupBy :: "string list \<Rightarrow> Model \<Rightarrow> error + jsval list" where
  "groupBy ps item =
     (case item of
        None \<Rightarrow> (if ps = [] then Inr [] else Inl TypeError)
      | Some m \<Rightarrow> Inr (map (field m) ps))"

text \<open>\<^verbatim>\<open>gatherGrouping\<close>, \<^verbatim>\<open>doExpand\<close> and \<^verbatim>\<open>doCollapse\<close> are services of this repository
  that are not under src/: the plugin takes them as parameters. The builder returns
  the grouped sequence, the depth and the hidden-row map. The expand and collapse
  services receive the records by reference and may set the expanded marker on them,
  so their results carry the records as they leave them, next to the patch of the
  hidden-row map and, for an expansion, the row-items list to write, if any; the
  row-items list they are handed is taken to be read only. The parameters say what
  the services return when they return.\<close>

record GatherResult =
  sourceWithGroups :: "Model list"
  depth :: nat
  gather_trimmed :: "nat \<rightharpoonup> bool"

type_synonym Builder =
  "Model list \<Rightarrow> (Model \<Rightarrow> error + jsval list) \<Rightarrow> ExpandedOptions \<Rightarrow> GatherResult"

record ExpandResult =
  expand_trimmed :: "nat \<rightharpoonup> bool"
  expand_items :: "nat list option"
  expand_source :: "Model list"

type_synonym ExpandService = "nat \<Rightarrow> int \<Rightarrow> Model list \<Rightarrow> nat list \<Rightarrow> ExpandResult"

record CollapseResult =
  collapse_trimmed :: "nat \<rightharpoonup> bool"
  collapse_source :: "Model list"

type_synonym CollapseService = "nat \<Rightarrow> Model list \<Rightarrow> CollapseResult"

text \<open>Modelled from the spec: \<^verbatim>\<open>doExpand\<close> of \<^verbatim>\<open>grouping.row.expand.service\<close> is not under
  src/. The spec: the precondition of the controller is that the record at the physical
  index is a group header, and a request on an index that is not a group header must
  not corrupt state. On a record that is not a group header the service throws before
  it writes anything; on a group header it is the parameter.\<close>

definition callExpand ::
  "ExpandService \<Rightarrow> nat \<Rightarrow> int \<Rightarrow> Model list \<Rightarrow> nat list \<Rightarrow> error + ExpandResult"
where
  "callExpand doExpand i virtualIndex src its =
     (if isGrouping (source_at src i) then Inr (doExpand i virtualIndex src its)
      else Inl ServiceError)"

subsection \<open>The grid: stores, host element and plugin state\<close>

text \<open>What the plugin reaches through \<^verbatim>\<open>this.providers\<close>, \<^verbatim>\<open>this.revogrid\<close> and its own
  fields: the row store; the columns of every area of the column provider; the areas
  notified by \<^verbatim>\<open>refreshByType\<close>, latest first; the physical index of the record that
  holds the cell focus, if any; the grouping property of the host element; the
  plugin's \<^verbatim>\<open>options\<close>; and whether the plugin is subscribed to the grid events.\<close>

record Grid =
  row :: RowStore
  columns :: "string \<Rightarrow> Column list"
  refreshed :: "string list"
  focus :: "nat option"
  grouping :: "GroupingOptions option"
  options :: "GroupingOptions option"
  subscribed :: bool

text \<open>Modelled from the spec: \<^verbatim>\<open>getPhysical\<close> of \<^verbatim>\<open>data.store\<close> is not under src/. The
  spec: the virtual order is the list of physical indices in display order, and the
  store looks the physical index up from a display index.\<close>

definition getPhysical :: "RowStore \<Rightarrow> int \<Rightarrow> nat option" where
  "getPhysical rowStore virtualIndex = js_nth (items rowStore) virtualIndex"

text \<open>Modelled from the spec: \<^verbatim>\<open>setItems\<close> of \<^verbatim>\<open>data.store\<close> is not under src/. The spec:
  the store lets the virtual-order index list be written as an ordered sequence.\<close>

definition setItems :: "RowStore \<Rightarrow> nat list \<Rightarrow> RowStore" where
  "setItems rowStore its = rowStore\<lparr>items := its\<rparr>"

text \<open>Modelled from the spec: \<^verbatim>\<open>addTrimmed\<close> of the host element is not under src/. The
  spec: the hidden-row map is published to a registry keyed by a named reason, a map
  from physical index to boolean per namespace.\<close>

definition addTrimmed :: "(nat \<rightharpoonup> bool) \<Rightarrow> string \<Rightarrow> RowStore \<Rightarrow> RowStore" where
  "addTrimmed t trimmedType rowStore = rowStore\<lparr>trimmed := (trimmed rowStore)(trimmedType \<mapsto> t)\<rparr>"

text \<open>Modelled from the spec: \<^verbatim>\<open>setData\<close> of the data provider is not under src/; its
  arguments here are the data, the depth of the grouping argument if there is one, and
  the silent flag (the row type is fixed). The spec: the resulting sequence is written
  back and the depth published; the hidden-row map is cleared entirely when grouping is
  turned off, and that is the one full (not silent) data write of the plugin: a full
  write drops the hidden-row map, every namespace of it; on the silent write of a
  rebuild the map is left as it is and the plugin publishes its own namespace
  afterwards.\<close>

definition setData :: "Model list \<Rightarrow> nat option \<Rightarrow> bool \<Rightarrow> RowStore \<Rightarrow> RowStore" where
  "setData data d silent rowStore =
     rowStore\<lparr>source := data, groupingDepth := d,
       trimmed := (if silent then trimmed rowStore else Map.empty)\<rparr>"

text \<open>Modelled from the spec: \<^verbatim>\<open>setGrouping\<close> of the data provider is not under src/. The
  spec: on a new data source the depth is published.\<close>

definition provider_setGrouping :: "nat \<Rightarrow> RowStore \<Rightarrow> RowStore" where
  "provider_setGrouping d rowStore = rowStore\<lparr>groupingDepth := Some d\<rparr>"

text \<open>Modelled from the spec: \<^verbatim>\<open>clearFocus\<close> of the host element is not under src/. The
  spec: the focus is cleared.\<close>

definition clearFocus :: "Grid \<Rightarrow> Grid" where
  "clearFocus g = g\<lparr>focus := None\<rparr>"

text \<open>Modelled from the spec: \<^verbatim>\<open>refreshByType\<close> of the column provider is not under src/.
  The spec: a refresh notification per area after a column's flags are changed.\<close>

definition refreshByType :: "string \<Rightarrow> Grid \<Rightarrow> Grid" where
  "refreshByType t g = g\<lparr>refreshed := t # refreshed g\<rparr>"

subsection \<open>The plugin\<close>

definition hasProps :: "Grid \<Rightarrow> bool" where
  "hasProps g =
     (case options g of
        None \<Rightarrow> False
      | Some opts \<Rightarrow> (case props opts of None \<Rightarrow> False | Some ps \<Rightarrow> ps \<noteq> []))"

definition rowItems :: "Grid \<Rightarrow> nat list" where
  "rowItems g = items (row g)"

definition setSource :: "Model list \<Rightarrow> Grid \<Rightarrow> Grid" where
  "setSource data g = g\<lparr>row := (row g)\<lparr>source := data\<rparr>\<rparr>"

text \<open>\<^verbatim>\<open>{ ...newTrimmed, ...trimmed }\<close>, where \<^verbatim>\<open>newTrimmed\<close> may be \<^verbatim>\<open>undefined\<close>.\<close>

definition spreadTrimmed :: "(nat \<rightharpoonup> bool) option \<Rightarrow> (nat \<rightharpoonup> bool) \<Rightarrow> (nat \<rightharpoonup> bool)" where
  "spreadTrimmed newTrimmed t = (case newTrimmed of None \<Rightarrow> t | Some old \<Rightarrow> old ++ t)"

text \<open>\<^verbatim>\<open>onExpand\<close>: \<^verbatim>\<open>source[i]\<close> with \<^verbatim>\<open>i\<close> undefined or out of range is
  \<^verbatim>\<open>undefined\<close>, and reading its expanded marker throws; so does the expand service on
  a record it does not accept. Both happen before the first write of the handler.\<close>

definition onExpand :: "ExpandService \<Rightarrow> CollapseService \<Rightarrow> int \<Rightarrow> Grid \<Rightarrow> error + Grid" where
  "onExpand doExpand doCollapse virtualIndex g =
     (let rowStore = row g;
          src = gather_source (getSource rowStore False);
          newTrimmed = trimmed rowStore TRIMMED_GROUPING
      in case getPhysical rowStore virtualIndex of
           None \<Rightarrow> Inl TypeError
         | Some i \<Rightarrow>
            (case source_at src i of
               None \<Rightarrow> Inl TypeError
             | Some model \<Rightarrow>
                (if \<not> truthy (field model GROUP_EXPANDED) then
                   (case callExpand doExpand i virtualIndex src (rowItems g) of
                      Inl e \<Rightarrow> Inl e
                    | Inr r \<Rightarrow>
                       (let newTrimmed' = spreadTrimmed newTrimmed (expand_trimmed r);
                            g1 = (case expand_items r of
                                    None \<Rightarrow> g
                                  | Some its \<Rightarrow> g\<lparr>row := setItems (row g) its\<rparr>);
                            g2 = setSource (expand_source r) g1
                        in Inr (g2\<lparr>row := addTrimmed newTrimmed' TRIMMED_GROUPING (row g2)\<rparr>)))
                 else
                   (let r = doCollapse i src;
                        newTrimmed' = spreadTrimmed newTrimmed (collapse_trimmed r);
                        g1 = clearFocus g;
                        g2 = setSource (collapse_source r) g1
                    in Inr (g2\<lparr>row := addTrimmed newTrimmed' TRIMMED_GROUPING (row g2)\<rparr>)))))"

text \<open>The grid after \<^verbatim>\<open>onExpand\<close> has run on the grid \<open>g\<close>: the handler throws only
  before its first write, so a throw leaves the grid as it was.\<close>

definition state_after :: "Grid \<Rightarrow> error + Grid \<Rightarrow> Grid" where
  "state_after g r = (case r of Inl e \<Rightarrow> g | Inr g' \<Rightarrow> g')"

text \<open>\<^verbatim>\<open>setColumnGrouping\<close>: the columns after the call and the returned flag.\<close>

fun setColumnGrouping :: "Column list option \<Rightarrow> Column list option \<times> bool" where
  "setColumnGrouping None = (None, False)"
| "setColumnGrouping (Some []) = (Some [], False)"
| "setColumnGrouping (Some (c # cs)) = (Some (c(PSEUDO_GROUP_COLUMN \<mapsto> JBool True) # cs), True)"

text \<open>\<^verbatim>\<open>setColumns\<close>: the loop over \<^verbatim>\<open>columnTypes\<close>, a table of \<^verbatim>\<open>storeTypes\<close> that is not
  under src/ and is a parameter here; the loop breaks at the first area flagged.\<close>

fun setColumns :: "string list \<Rightarrow> (string \<rightharpoonup> Column list) \<Rightarrow> (string \<rightharpoonup> Column list)" where
  "setColumns [] cols = cols"
| "setColumns (t # ts) cols =
     (case setColumnGrouping (cols t) of
        (cols', True) \<Rightarrow> cols(t := cols')
      | (cols', False) \<Rightarrow> setColumns ts cols)"

text \<open>\<^verbatim>\<open>doSourceUpdate\<close>; \<^verbatim>\<open>hasProps\<close> being true, the key fields are there.\<close>

definition doSourceUpdate :: "Builder \<Rightarrow> ExpandedOptions option \<Rightarrow> Grid \<Rightarrow> Grid" where
  "doSourceUpdate gatherGrouping opts g =
     (if \<not> hasProps g then g
      else
        (case options g of
           None \<Rightarrow> g
         | Some cfg \<Rightarrow>
            (case props cfg of
               None \<Rightarrow> g
             | Some ps \<Rightarrow>
                (let gs = getSource (row g) True;
                     r = gatherGrouping (gather_source gs) (groupBy ps)
                           (mergeOptions (gather_prevExpanded gs) opts);
                     rs1 = setData (sourceWithGroups r) (Some (depth r)) True (row g)
                 in g\<lparr>row := addTrimmed (gather_trimmed r) TRIMMED_GROUPING rs1\<rparr>))))"

text \<open>\<^verbatim>\<open>onDataSet\<close>: the event detail (its \<^verbatim>\<open>source\<close> field, absent when the detail or the
  field is \<^verbatim>\<open>undefined\<close>) is returned as the handler leaves it, with the grid.\<close>

definition onDataSet :: "Builder \<Rightarrow> Model list option \<Rightarrow> Grid \<Rightarrow> Model list option \<times> Grid" where
  "onDataSet gatherGrouping data g =
     (case data of
        None \<Rightarrow> (data, g)
      | Some dsource \<Rightarrow>
         (if \<not> hasProps g \<or> dsource = [] then (data, g)
          else
            (case options g of
               None \<Rightarrow> (data, g)
             | Some cfg \<Rightarrow>
                (case props cfg of
                   None \<Rightarrow> (data, g)
                 | Some ps \<Rightarrow>
                    (let src = filter (\<lambda>s. \<not> isGrouping s) dsource;
                         expanded = (case grouping g of
                                       None \<Rightarrow> \<lparr>prevExpanded = None, expanded_all = None\<rparr>
                                     | Some go \<Rightarrow> spreadOptions go);
                         r = gatherGrouping src (groupBy ps) expanded;
                         rs1 = provider_setGrouping (depth r) (row g)
                     in (Some (sourceWithGroups r),
                         g\<lparr>row := addTrimmed (gather_trimmed r) TRIMMED_GROUPING rs1\<rparr>))))))"

text \<open>\<^verbatim>\<open>clearGrouping\<close>: the inner \<^verbatim>\<open>forEach\<close> over the columns of one area, the outer
  one over \<^verbatim>\<open>columnTypes\<close>, then the rows.\<close>

definition clearColumns :: "Column list \<Rightarrow> Column list \<times> bool" where
  "clearColumns cols =
     (map (\<lambda>c. if isGroupingColumn c then c(PSEUDO_GROUP_COLUMN := None) else c) cols,
      list_ex isGroupingColumn cols)"

fun clearGrouping_types :: "string list \<Rightarrow> Grid \<Rightarrow> Grid" where
  "clearGrouping_types [] g = g"
| "clearGrouping_types (t # ts) g =
     (case clearColumns (columns g t) of
        (cols', deleted) \<Rightarrow>
          (let g1 = g\<lparr>columns := (columns g)(t := cols')\<rparr>;
               g2 = (if deleted then refreshByType t g1 else g1)
           in clearGrouping_types ts g2))"

definition clearGrouping :: "string list \<Rightarrow> Grid \<Rightarrow> Grid" where
  "clearGrouping columnTypes g =
     (let g1 = clearGrouping_types columnTypes g;
          src = gather_source (getSource (row g1) True)
      in g1\<lparr>row := setData src None False (row g1)\<rparr>)"

text \<open>\<^verbatim>\<open>setGrouping\<close>: the loop that flags the indicator column on the column
  provider, then the method itself.\<close>

fun setGrouping_columns :: "string list \<Rightarrow> Grid \<Rightarrow> Grid" where
  "setGrouping_columns [] g = g"
| "setGrouping_columns (t # ts) g =
     (case setColumnGrouping (Some (columns g t)) of
        (Some cols', True) \<Rightarrow> refreshByType t (g\<lparr>columns := (columns g)(t := cols')\<rparr>)
      | _ \<Rightarrow> setGrouping_columns ts g)"

text \<open>Modelled from the spec: \<^verbatim>\<open>clearSubscriptions\<close> of \<^verbatim>\<open>basePlugin\<close> is not under src/. The
  spec: the listeners are detached before grouping is reconfigured. \<^verbatim>\<open>subscribe\<close>
  attaches them again.\<close>

definition clearSubscriptions :: "Grid \<Rightarrow> Grid" where
  "clearSubscriptions g = g\<lparr>subscribed := False\<rparr>"

definition subscribe :: "Grid \<Rightarrow> Grid" where
  "subscribe g = g\<lparr>subscribed := True\<rparr>"

definition setGrouping :: "string list \<Rightarrow> Builder \<Rightarrow> GroupingOptions \<Rightarrow> Grid \<Rightarrow> Grid" where
  "setGrouping columnTypes gatherGrouping opts g =
     (let g1 = (clearSubscriptions g)\<lparr>options := Some opts\<rparr>
      in if props opts = None \<or> props opts = Some [] then clearGrouping columnTypes g1
         else
           (let src = gather_source (getSource (row g1) False);
                g2 = (if src \<noteq> [] then doSourceUpdate gatherGrouping (Some (spreadOptions opts)) g1
                      else g1);
                g3 = setGrouping_columns columnTypes g2
            in subscribe g3))"


subsection \<open>Auxiliary notions for the statements\<close>

text \<open>The key under which a record enters the expansion memory: it is a group header
  whose expanded marker is truthy.\<close>

definition expanded_key :: "Model \<Rightarrow> string option" where
  "expanded_key model =
     (case model of
        None \<Rightarrow> None
      | Some m \<Rightarrow>
          if isGrouping (Some m) \<and> truthy (field m GROUP_EXPANDED)
          then Some (toPropertyKey (field m PSEUDO_GROUP_ITEM_VALUE)) else None)"

subsection \<open>Example states\<close>

definition group_header :: "string \<Rightarrow> bool \<Rightarrow> Model" where
  "group_header v e =
     Some [PSEUDO_GROUP_ITEM \<mapsto> JBool True, PSEUDO_GROUP_ITEM_VALUE \<mapsto> JStr v,
           GROUP_EXPANDED \<mapsto> JBool e]"

definition data_row :: "string \<Rightarrow> int \<Rightarrow> Model" where
  "data_row r n = Some [''region'' \<mapsto> JStr r, ''v'' \<mapsto> JNum n]"

text \<open>Three records grouped by region, the group W collapsed.\<close>

definition example_store :: RowStore where
  "example_store =
     \<lparr>source = [group_header ''E'' True, data_row ''E'' 1, data_row ''E'' 2,
                 group_header ''W'' False, data_row ''W'' 3],
      proxyItems = [0, 1, 2, 3, 4],
      items = [0, 1, 2, 3],
      trimmed = [TRIMMED_GROUPING \<mapsto> [4 \<mapsto> True]],
      groupingDepth = Some 1\<rparr>"

text \<open>One group with its two records, all shown.\<close>

definition drag_store :: RowStore where
  "drag_store =
     \<lparr>source = [group_header ''E'' True, data_row ''E'' 1, data_row ''E'' 2],
      proxyItems = [0, 1, 2],
      items = [0, 1, 2],
      trimmed = Map.empty,
      groupingDepth = Some 1\<rparr>"

text \<open>The source of a store taken in proxy-items order, as \<^verbatim>\<open>getSource()\<close> returns it.\<close>

definition proxied :: "RowStore \<Rightarrow> Model list" where
  "proxied rs = map (source_at (source rs)) (proxyItems rs)"

text \<open>Two groups, both expanded, every record shown; the focus is on the record of
  group W.\<close>

definition expanded_store :: RowStore where
  "expanded_store =
     \<lparr>source = [group_header ''E'' True, data_row ''E'' 1, data_row ''E'' 2,
                 group_header ''W'' True, data_row ''W'' 3],
      proxyItems = [0, 1, 2, 3, 4],
      items = [0, 1, 2, 3, 4],
      trimmed = [TRIMMED_GROUPING \<mapsto> Map.empty],
      groupingDepth = Some 1\<rparr>"

definition region_options :: GroupingOptions where
  "region_options = \<lparr>props = Some [''region''], expandedAll = None\<rparr>"

definition focus_grid :: Grid where
  "focus_grid =
     \<lparr>row = expanded_store, columns = (\<lambda>t. []), refreshed = [], focus = Some 4,
      grouping = Some region_options, options = Some region_options, subscribed = True\<rparr>"

text \<open>A collapse service for the header of group E in that store: it hides the two
  records of the group and marks the header collapsed.\<close>

definition example_collapse :: CollapseService where
  "example_collapse i src =
     \<lparr>collapse_trimmed = [1 \<mapsto> True, 2 \<mapsto> True],
      collapse_source = src[i := group_header ''E'' False]\<rparr>"

text \<open>An expand service for the header of group W in the first example store: it shows
  record 4 again, puts it behind the header in the row-items list and marks the header
  expanded.\<close>

definition example_expand :: ExpandService where
  "example_expand i virtualIndex src its =
     \<lparr>expand_trimmed = [4 \<mapsto> False],
      expand_items = Some (take (nat virtualIndex + 1) its @ [4] @ drop (nat virtualIndex + 1) its),
      expand_source = src[i := group_header ''W'' True]\<rparr>"

text \<open>A grid over the first example store, group W collapsed.\<close>

definition collapsed_grid :: Grid where
  "collapsed_grid =
     \<lparr>row = example_store, columns = (\<lambda>t. []), refreshed = [], focus = Some 1,
      grouping = Some region_options, options = Some region_options, subscribed = True\<rparr>"

text \<open>The number of columns that carry the grouping-indicator flag, over the areas of
  \<^verbatim>\<open>columnTypes\<close>.\<close>

definition flagged_total :: "string list \<Rightarrow> (string \<Rightarrow> Column list) \<Rightarrow> nat" where
  "flagged_total columnTypes cols =
     sum_list (map (\<lambda>t. length (filter isGroupingColumn (cols t))) columnTypes)"

text \<open>The expansion memory of a store, in the words of the spec: a group key maps to
  \<open>true\<close> when a group header of the current source, reached through the proxy-items
  list, has that key and is expanded; other keys have no entry.\<close>

definition expansion_memory :: "RowStore \<Rightarrow> string \<rightharpoonup> bool" where
  "expansion_memory rs k =
     (if \<exists>i \<in> set (proxyItems rs). expanded_key (source_at (source rs) i) = Some k
      then Some True else None)"

text \<open>A builder for the examples, one grouping level deep: it opens a header whenever
  the first key of a record differs from the key of the open group, takes the expanded
  state of a header from the memory (or the expand-all policy), and hides the records
  under a collapsed header.\<close>

definition header_for :: "ExpandedOptions \<Rightarrow> jsval \<Rightarrow> Model" where
  "header_for opts v =
     group_header (toPropertyKey v)
       (expanded_all opts = Some True
        \<or> (case prevExpanded opts of
              None \<Rightarrow> False
            | Some mem \<Rightarrow> mem (toPropertyKey v) = Some True))"

fun example_rows ::
  "(Model \<Rightarrow> error + jsval list) \<Rightarrow> ExpandedOptions \<Rightarrow> jsval option \<Rightarrow> Model list \<Rightarrow> Model list"
where
  "example_rows gb opts cur [] = []"
| "example_rows gb opts cur (m # ms) =
     (case gb m of
        Inr (v # rest) \<Rightarrow>
          if cur = Some v then m # example_rows gb opts cur ms
          else header_for opts v # m # example_rows gb opts (Some v) ms
      | _ \<Rightarrow> m # example_rows gb opts cur ms)"

fun example_hidden :: "bool \<Rightarrow> nat \<Rightarrow> Model list \<Rightarrow> (nat \<times> bool) list" where
  "example_hidden hide i [] = []"
| "example_hidden hide i (m # ms) =
     (if isGrouping m then example_hidden (expanded_key m = None) (Suc i) ms
      else (if hide then [(i, True)] else []) @ example_hidden hide (Suc i) ms)"

definition example_builder :: Builder where
  "example_builder src gb opts =
     (let out = example_rows gb opts None src
      in \<lparr>sourceWithGroups = out, depth = 1,
          gather_trimmed = map_of (example_hidden False 0 out)\<rparr>)"

text \<open>The grouped records after a sort by \<open>v\<close>, descending: the proxy-items list gives
  the new order; group E is collapsed, group W expanded.\<close>

definition sorted_grid :: Grid where
  "sorted_grid =
     \<lparr>row = \<lparr>source = [group_header ''E'' False, data_row ''E'' 1, data_row ''E'' 2,
                       group_header ''W'' True, data_row ''W'' 3],
             proxyItems = [3, 4, 0, 2, 1],
             items = [3, 4, 0],
             trimmed = [TRIMMED_GROUPING \<mapsto> [1 \<mapsto> True, 2 \<mapsto> True]],
             groupingDepth = Some 1\<rparr>,
      columns = (\<lambda>t. []), refreshed = [], focus = None,
      grouping = Some region_options, options = Some region_options, subscribed = True\<rparr>"

text \<open>Column areas in the priority order the spec gives (pinned start, regular, pinned
  end), and grids with two regular columns.\<close>

definition example_columnTypes :: "string list" where
  "example_columnTypes = [''colPinStart'', ''rgCol'', ''colPinEnd'']"

definition example_column :: "string \<Rightarrow> Column" where
  "example_column name = [''prop'' \<mapsto> JStr name]"

definition column_grid :: Grid where
  "column_grid =
     \<lparr>row = expanded_store,
      columns = (\<lambda>t. [])(''rgCol'' := [example_column ''region'', example_column ''v'']),
      refreshed = [], focus = None,
      grouping = Some region_options, options = None, subscribed = False\<rparr>"

definition off_options :: GroupingOptions where
  "off_options = \<lparr>props = Some [], expandedAll = None\<rparr>"

text \<open>A grid with grouping on: the first regular column is flagged, record 4 is hidden
  by its collapsed group and record 2 by a filter.\<close>

definition grouped_grid :: Grid where
  "grouped_grid =
     \<lparr>row = example_store\<lparr>trimmed := (trimmed example_store)(''filter'' \<mapsto> [2 \<mapsto> True])\<rparr>,
      columns = (\<lambda>t. [])(''rgCol'' :=
        [(example_column ''region'')(PSEUDO_GROUP_COLUMN \<mapsto> JBool True), example_column ''v'']),
      refreshed = [], focus = None,
      grouping = Some region_options, options = Some region_options, subscribed = True\<rparr>"

text \<open>A grid in which the second regular column carries the flag and the first does
  not.\<close>

definition late_flag_grid :: Grid where
  "late_flag_grid =
     \<lparr>row = expanded_store,
      columns = (\<lambda>t. [])(''rgCol'' :=
        [example_column ''region'', (example_column ''v'')(PSEUDO_GROUP_COLUMN \<mapsto> JBool True)]),
      refreshed = [], focus = None,
      grouping = Some region_options, options = Some region_options, subscribed = True\<rparr>"

section \<open>Properties\<close>

subsection \<open>getSource\<close>

lemma getSource_fold_all:
  "foldl (getSource_step src False) acc xs =
     acc\<lparr>gather_source := gather_source acc @ map (source_at src) xs\<rparr>"
  by (induction xs arbitrary: acc) (simp_all add: getSource_step_def)

lemma getSource_fold_source:
  "gather_source (foldl (getSource_step src True) acc xs) =
     gather_source acc @ filter (\<lambda>m. \<not> isGrouping m) (map (source_at src) xs)"
  by (induction xs arbitrary: acc) (simp_all add: getSource_step_def split: option.splits)

lemma getSource_step_prev:
  "gather_prevExpanded (getSource_step src True acc i) k =
     (if expanded_key (source_at src i) = Some k then Some True else gather_prevExpanded acc k)"
  by (cases "source_at src i") (auto simp: getSource_step_def expanded_key_def Let_def)

lemma getSource_fold_prev:
  "gather_prevExpanded (foldl (getSource_step src True) acc xs) k =
     (if \<exists>i \<in> set xs. expanded_key (source_at src i) = Some k then Some True
      else gather_prevExpanded acc k)"
proof (induction xs arbitrary: acc)
  case Nil
  then show ?case by simp
next
  case (Cons x xs)
  show ?case
    unfolding foldl_Cons Cons.IH getSource_step_prev by auto
qed

lemma getSource_all:
  "gather_source (getSource rs False) = map (source_at (source rs)) (proxyItems rs)"
  by (simp add: getSource_def getSource_fold_all)

lemma expanded_key_iff:
  "expanded_key model = Some k \<longleftrightarrow>
     (\<exists>m. model = Some m \<and> isGrouping (Some m) \<and> truthy (field m GROUP_EXPANDED)
        \<and> toPropertyKey (field m PSEUDO_GROUP_ITEM_VALUE) = k)"
  by (cases model) (auto simp add: expanded_key_def)

lemma isGrouping_group_header [simp]: "isGrouping (group_header v e)"
  by (simp add: group_header_def PSEUDO_GROUP_ITEM_def PSEUDO_GROUP_ITEM_VALUE_def
      GROUP_EXPANDED_def)

lemma isGrouping_data_row [simp]: "\<not> isGrouping (data_row r n)"
  by (simp add: data_row_def PSEUDO_GROUP_ITEM_def)

lemma expanded_key_group_header [simp]:
  "expanded_key (group_header v e) = (if e then Some v else None)"
  by (simp add: expanded_key_def group_header_def field_def PSEUDO_GROUP_ITEM_def
      PSEUDO_GROUP_ITEM_VALUE_def GROUP_EXPANDED_def)

lemma expanded_key_data_row [simp]: "expanded_key (data_row r n) = None"
  by (simp add: expanded_key_def data_row_def PSEUDO_GROUP_ITEM_def)

lemma example_store_proxy:
  "map (source_at (source example_store)) (proxyItems example_store) = source example_store"
  by (simp add: example_store_def source_at_def)

lemma drag_store_proxy:
  "map (source_at (source drag_store)) (proxyItems drag_store) = source drag_store"
  by (simp add: drag_store_def source_at_def)



subsection \<open>Focus\<close>

text \<open>
  Claim C5. A before-cell-focus event is prevented by the plugin if and only if the
  target record is a group header; a focus attempt on a data record is never prevented.
\<close>

theorem onFocus_prevents_group_header: "onFocus model \<longleftrightarrow> isGrouping model"
  by (simp add: onFocus_def)

subsection \<open>The filter hook\<close>

lemma beforeFilterApply_keys: "map fst (beforeFilterApply m src) = map fst m"
  by (induction m src rule: beforeFilterApply.induct) auto

lemma beforeFilterApply_map_of:
  "map_of (beforeFilterApply m src) k =
     (case map_of m k of
        None \<Rightarrow> None
      | Some v \<Rightarrow> Some (if v \<and> isGrouping (source_at src k) then False else v))"
  by (induction m src rule: beforeFilterApply.induct) auto

text \<open>
  Claim C4. After the filter hook has run, the map has the same keys as before; every
  entry whose record is a group header holds \<open>false\<close> (an index with no entry stays
  without one, so never reads as filtered out), and every entry whose record is not a
  group header holds its prior value.
\<close>

theorem beforeFilterApply_unhides_headers:
  "map fst (beforeFilterApply itemsToFilter src) = map fst itemsToFilter
   \<and> (\<forall>index. isGrouping (source_at src index) \<longrightarrow>
         map_of (beforeFilterApply itemsToFilter src) index =
           (if index \<in> fst ` set itemsToFilter then Some False else None))
   \<and> (\<forall>index. \<not> isGrouping (source_at src index) \<longrightarrow>
         map_of (beforeFilterApply itemsToFilter src) index = map_of itemsToFilter index)"
proof -
  have mem: "index \<in> fst ` set itemsToFilter \<longleftrightarrow> map_of itemsToFilter index \<noteq> None"
    for index
    by (simp add: map_of_eq_None_iff)
  show ?thesis
    unfolding mem
    by (auto simp: beforeFilterApply_keys beforeFilterApply_map_of split: option.splits)
qed

theorem beforeFilterApply_unhides_headers_witness:
  "isGrouping (source_at (source example_store) 3)
   \<and> \<not> isGrouping (source_at (source example_store) 4)
   \<and> beforeFilterApply [(1, True), (3, True), (4, True)] (source example_store)
       = [(1, True), (3, False), (4, True)]
   \<and> map_of (beforeFilterApply [(1, True), (3, True), (4, True)] (source example_store)) 3
       = Some False
   \<and> map_of (beforeFilterApply [(1, True), (3, True), (4, True)] (source example_store)) 0
       = None
   \<and> map_of (beforeFilterApply [(1, True), (3, True), (4, True)] (source example_store)) 4
       = Some True"
  using beforeFilterApply_unhides_headers
    [of "[(1, True), (3, True), (4, True)]" "source example_store"]
  by (simp add: example_store_def source_at_def)

subsection \<open>Row reorder\<close>

lemma onDrag_loop_iff:
  "onDrag_loop src its i endi \<longleftrightarrow>
     (\<exists>j. i \<le> j \<and> j < endi \<and> isGrouping (drag_model src its j))"
proof (induction src its i endi rule: onDrag_loop.induct)
  case (1 src its i endi)
  show ?case
  proof (cases "i < endi")
    case False
    then show ?thesis by (simp add: onDrag_loop.simps [of src its i endi])
  next
    case True
    show ?thesis
    proof (cases "isGrouping (drag_model src its i)")
      case g: True
      with True show ?thesis by (auto simp add: onDrag_loop.simps [of src its i endi])
    next
      case g: False
      have "onDrag_loop src its i endi = onDrag_loop src its (i + 1) endi"
        using True g by (simp add: onDrag_loop.simps [of src its i endi])
      also have "\<dots> \<longleftrightarrow> (\<exists>j. i + 1 \<le> j \<and> j < endi \<and> isGrouping (drag_model src its j))"
        using 1 True g by simp
      also have "\<dots> \<longleftrightarrow> (\<exists>j. i \<le> j \<and> j < endi \<and> isGrouping (drag_model src its j))"
      proof
        assume "\<exists>j. i + 1 \<le> j \<and> j < endi \<and> isGrouping (drag_model src its j)"
        then obtain j where "i + 1 \<le> j" "j < endi" "isGrouping (drag_model src its j)"
          by blast
        then have "i \<le> j \<and> j < endi \<and> isGrouping (drag_model src its j)" by simp
        then show "\<exists>j. i \<le> j \<and> j < endi \<and> isGrouping (drag_model src its j)" by blast
      next
        assume "\<exists>j. i \<le> j \<and> j < endi \<and> isGrouping (drag_model src its j)"
        then obtain j where j: "i \<le> j" "j < endi" "isGrouping (drag_model src its j)"
          by blast
        with g have "j \<noteq> i" by auto
        with j have "i + 1 \<le> j \<and> j < endi \<and> isGrouping (drag_model src its j)" by simp
        then show "\<exists>j. i + 1 \<le> j \<and> j < endi \<and> isGrouping (drag_model src its j)" by blast
      qed
      finally show ?thesis .
    qed
  qed
qed

text \<open>
  Claim C1, as amended. A row-reorder event with positions \<open>from\<close> and \<open>to\<close> is prevented
  exactly when some position \<open>p\<close> with \<open>min from to \<le> p < max from to\<close> (the lower
  end included, the upper end excluded) holds, in the row-items list, the physical index
  of a group header of the source taken in proxy-items order; the handler writes
  nothing, so the source sequence and the hidden-row map are as before in either case.
\<close>

theorem onDrag_half_open_span:
  "fst (onDrag rs from to) = rs
   \<and> (snd (onDrag rs from to) \<longleftrightarrow>
        (\<exists>p. min from to \<le> p \<and> p < max from to
           \<and> isGrouping (drag_model (map (source_at (source rs)) (proxyItems rs)) (items rs) p)))"
proof (cases "from \<le> to")
  case True
  then have "min from to = from" "max from to = to" by simp_all
  with True show ?thesis
    by (simp add: onDrag_def Let_def getSource_all onDrag_loop_iff)
next
  case False
  then have "min from to = to" "max from to = from" by simp_all
  with False show ?thesis
    by (simp add: onDrag_def Let_def getSource_all onDrag_loop_iff)
qed

theorem onDrag_half_open_span_witness:
  "snd (onDrag drag_store 1 3) = False \<and> snd (onDrag drag_store 0 2) = True
   \<and> fst (onDrag drag_store 0 2) = drag_store"
proof -
  have a: "\<not> (\<exists>p. min 1 3 \<le> p \<and> p < max 1 (3::int) \<and>
            isGrouping (drag_model (source drag_store) (items drag_store) p))"
  proof
    assume "\<exists>p. min 1 3 \<le> p \<and> p < max 1 (3::int) \<and>
            isGrouping (drag_model (source drag_store) (items drag_store) p)"
    then obtain p :: int where p: "1 \<le> p" "p < 3"
      "isGrouping (drag_model (source drag_store) (items drag_store) p)" by auto
    then have "p = 1 \<or> p = 2" by arith
    with p(3) show False
      by (auto simp: drag_model_def js_nth_def drag_store_def source_at_def)
  qed
  have b: "min 0 2 \<le> (0::int) \<and> (0::int) < max 0 2 \<and>
            isGrouping (drag_model (source drag_store) (items drag_store) 0)"
    by (simp add: drag_model_def js_nth_def drag_store_def source_at_def)
  show ?thesis
    using onDrag_half_open_span [of drag_store 1 3] onDrag_half_open_span [of drag_store 0 2] a b
    unfolding drag_store_proxy by blast
qed

text \<open>The claim as stated fails: dragging the record at position 2 up to position 0 is
  prevented because the group header sits at position 0, the lower end of the span,
  while the only position strictly between 0 and 2 holds a data record.\<close>

theorem onDrag_strictly_between_counterexample:
  "snd (onDrag drag_store 2 0)
   \<and> \<not> isGrouping (drag_model (gather_source (getSource drag_store False)) (items drag_store) 1)"
proof -
  have src: "gather_source (getSource drag_store False) = source drag_store"
    by (simp add: getSource_all drag_store_proxy)
  have "onDrag_loop (source drag_store) (items drag_store) 0 2"
    by (simp add: onDrag_loop.simps [of _ _ 0 2] drag_model_def js_nth_def drag_store_def
        source_at_def)
  then show ?thesis
    by (simp add: onDrag_def src drag_model_def js_nth_def) (simp add: drag_store_def source_at_def)
qed

subsection \<open>Expand and collapse\<close>

lemma getSource_proxied: "gather_source (getSource rs False) = proxied rs"
  by (simp add: getSource_all proxied_def)

lemma map_source_at_upt: "map (source_at src) [0..<length src] = src"
proof (rule nth_equalityI)
  show "length (map (source_at src) [0..<length src]) = length src" by simp
next
  fix i
  assume "i < length (map (source_at src) [0..<length src])"
  then show "map (source_at src) [0..<length src] ! i = src ! i"
    by (simp add: source_at_def)
qed

lemma proxied_identity:
  "proxyItems rs = [0..<length (source rs)] \<Longrightarrow> proxied rs = source rs"
  by (simp add: proxied_def map_source_at_upt)

lemma data_row_eq_iff [simp]: "data_row r n = data_row r' n' \<longleftrightarrow> r = r' \<and> n = n'"
proof
  assume eq: "data_row r n = data_row r' n'"
  then have "[''region'' \<mapsto> JStr r, ''v'' \<mapsto> JNum n] =
      [''region'' \<mapsto> JStr r', ''v'' \<mapsto> JNum n']"
    by (simp add: data_row_def)
  then have "[''region'' \<mapsto> JStr r, ''v'' \<mapsto> JNum n] k =
      [''region'' \<mapsto> JStr r', ''v'' \<mapsto> JNum n'] k" for k
    by simp
  from this [of "''region''"] this [of "''v''"] show "r = r' \<and> n = n'" by simp
qed simp

lemma data_row_not_expanded:
  "data_row r n = Some m \<Longrightarrow> \<not> truthy (field m GROUP_EXPANDED)"
  by (auto simp: data_row_def field_def GROUP_EXPANDED_def)

lemma onExpand_rejects:
  assumes "getPhysical (row g) virtualIndex = Some i"
    and "source_at (proxied (row g)) i = Some m"
    and "\<not> isGrouping (Some m)"
    and "\<not> truthy (field m GROUP_EXPANDED)"
  shows "onExpand doExpand doCollapse virtualIndex g = Inl ServiceError"
  using assms
  by (simp add: onExpand_def Let_def getSource_all proxied_def callExpand_def)

lemma onExpand_expand_branch:
  assumes "getPhysical (row g) virtualIndex = Some i"
    and "source_at (proxied (row g)) i = Some m"
    and "isGrouping (Some m)"
    and "\<not> truthy (field m GROUP_EXPANDED)"
  shows "onExpand doExpand doCollapse virtualIndex g =
    (let r = doExpand i virtualIndex (proxied (row g)) (items (row g)) in
     Inr (g\<lparr>row := (row g)\<lparr>
            source := expand_source r,
            items := (case expand_items r of None \<Rightarrow> items (row g) | Some its \<Rightarrow> its),
            trimmed := (trimmed (row g))(TRIMMED_GROUPING \<mapsto>
               spreadTrimmed (trimmed (row g) TRIMMED_GROUPING) (expand_trimmed r))\<rparr>\<rparr>))"
  using assms
  by (simp add: onExpand_def Let_def getSource_all proxied_def rowItems_def setSource_def
      setItems_def addTrimmed_def callExpand_def split: option.splits)

lemma onExpand_collapse_branch:
  assumes "getPhysical (row g) virtualIndex = Some i"
    and "source_at (proxied (row g)) i = Some m"
    and "truthy (field m GROUP_EXPANDED)"
  shows "onExpand doExpand doCollapse virtualIndex g =
    (let r = doCollapse i (proxied (row g)) in
     Inr (g\<lparr>row := (row g)\<lparr>
            source := collapse_source r,
            trimmed := (trimmed (row g))(TRIMMED_GROUPING \<mapsto>
               spreadTrimmed (trimmed (row g) TRIMMED_GROUPING) (collapse_trimmed r))\<rparr>,
          focus := None\<rparr>))"
  using assms
  by (simp add: onExpand_def Let_def getSource_all proxied_def rowItems_def setSource_def
      clearFocus_def addTrimmed_def split: option.splits)

lemma proxied_expanded_store: "proxied expanded_store = source expanded_store"
  by (rule proxied_identity) (simp add: expanded_store_def upt_rec)

lemma focus_grid_header:
  "getPhysical (row focus_grid) 0 = Some 0
   \<and> source_at (proxied (row focus_grid)) 0 = group_header ''E'' True"
  by (simp add: focus_grid_def proxied_expanded_store getPhysical_def js_nth_def)
     (simp add: expanded_store_def source_at_def)

lemma focus_grid_record:
  "getPhysical (row focus_grid) 1 = Some 1
   \<and> source_at (proxied (row focus_grid)) 1 = data_row ''E'' 1"
  by (simp add: focus_grid_def proxied_expanded_store getPhysical_def js_nth_def)
     (simp add: expanded_store_def source_at_def)

lemma collapsed_grid_header:
  "getPhysical (row collapsed_grid) 3 = Some 3
   \<and> source_at (proxied (row collapsed_grid)) 3 = group_header ''W'' False"
  by (simp add: collapsed_grid_def proxied_def getPhysical_def js_nth_def example_store_def
      source_at_def)

text \<open>
  Claim C7, as amended. For every expand-toggle event that resolves to a group header:
  if the header is collapsed, the expand service is called, its patch is merged into the
  "grouping" namespace and the items it returns, if any, become the row-items list; if
  the header is expanded, the collapse service is called, its patch is merged into the
  "grouping" namespace and the focus is cleared, whatever record held it. In both
  cases the source becomes the records as the service leaves them.
\<close>

theorem onExpand_toggles_header:
  assumes "getPhysical (row g) virtualIndex = Some i"
    and "source_at (proxied (row g)) i = Some m"
    and "isGrouping (Some m)"
  shows "onExpand doExpand doCollapse virtualIndex g =
    (if \<not> truthy (field m GROUP_EXPANDED) then
       (let r = doExpand i virtualIndex (proxied (row g)) (items (row g)) in
        Inr (g\<lparr>row := (row g)\<lparr>
               source := expand_source r,
               items := (case expand_items r of None \<Rightarrow> items (row g) | Some its \<Rightarrow> its),
               trimmed := (trimmed (row g))(TRIMMED_GROUPING \<mapsto>
                  spreadTrimmed (trimmed (row g) TRIMMED_GROUPING) (expand_trimmed r))\<rparr>\<rparr>))
     else
       (let r = doCollapse i (proxied (row g)) in
        Inr (g\<lparr>row := (row g)\<lparr>
               source := collapse_source r,
               trimmed := (trimmed (row g))(TRIMMED_GROUPING \<mapsto>
                  spreadTrimmed (trimmed (row g) TRIMMED_GROUPING) (collapse_trimmed r))\<rparr>,
             focus := None\<rparr>)))"
  using assms onExpand_expand_branch [of g virtualIndex i m doExpand doCollapse]
    onExpand_collapse_branch [of g virtualIndex i m doExpand doCollapse]
  by (cases "truthy (field m GROUP_EXPANDED)") simp_all

theorem onExpand_toggles_header_witness:
  "getPhysical (row focus_grid) 0 = Some 0
   \<and> source_at (proxied (row focus_grid)) 0 = group_header ''E'' True
   \<and> isGrouping (group_header ''E'' True)
   \<and> onExpand example_expand example_collapse 0 focus_grid =
       Inr (focus_grid\<lparr>row := expanded_store\<lparr>
              source := [group_header ''E'' False, data_row ''E'' 1, data_row ''E'' 2,
                         group_header ''W'' True, data_row ''W'' 3],
              trimmed := [TRIMMED_GROUPING \<mapsto> [1 \<mapsto> True, 2 \<mapsto> True]]\<rparr>,
            focus := None\<rparr>)
   \<and> getPhysical (row collapsed_grid) 3 = Some 3
   \<and> source_at (proxied (row collapsed_grid)) 3 = group_header ''W'' False
   \<and> isGrouping (group_header ''W'' False)
   \<and> onExpand example_expand example_collapse 3 collapsed_grid =
       Inr (collapsed_grid\<lparr>row := example_store\<lparr>
              source := [group_header ''E'' True, data_row ''E'' 1, data_row ''E'' 2,
                         group_header ''W'' True, data_row ''W'' 3],
              items := [0, 1, 2, 3, 4],
              trimmed := [TRIMMED_GROUPING \<mapsto> [4 \<mapsto> False]]\<rparr>\<rparr>)"
proof -
  obtain w where w: "group_header ''W'' False = Some w"
    by (simp add: group_header_def)
  have wt: "\<not> truthy (field w GROUP_EXPANDED)"
    using w by (auto simp: group_header_def field_def GROUP_EXPANDED_def)
  have wg: "isGrouping (Some w)"
    using w isGrouping_group_header [of "''W''" False] by simp
  have wrow: "row collapsed_grid = example_store" by (simp add: collapsed_grid_def)
  have wprox: "proxied example_store = source example_store"
    by (simp add: proxied_def example_store_proxy)
  have wsrc: "(source example_store)[3 := group_header ''W'' True] =
      [group_header ''E'' True, data_row ''E'' 1, data_row ''E'' 2,
       group_header ''W'' True, data_row ''W'' 3]"
    by (simp add: example_store_def)
  have wits: "take 4 (items example_store) @ 4 # drop 4 (items example_store)
      = [0, 1, 2, 3, 4]"
    by (simp add: example_store_def)
  have wtr: "(trimmed example_store)(TRIMMED_GROUPING \<mapsto>
      spreadTrimmed (trimmed example_store TRIMMED_GROUPING) [4 \<mapsto> False]) =
      [TRIMMED_GROUPING \<mapsto> [4 \<mapsto> False]]"
    by (simp add: example_store_def spreadTrimmed_def)
  have second: "onExpand example_expand example_collapse 3 collapsed_grid =
       Inr (collapsed_grid\<lparr>row := example_store\<lparr>
              source := [group_header ''E'' True, data_row ''E'' 1, data_row ''E'' 2,
                         group_header ''W'' True, data_row ''W'' 3],
              items := [0, 1, 2, 3, 4],
              trimmed := [TRIMMED_GROUPING \<mapsto> [4 \<mapsto> False]]\<rparr>\<rparr>)"
    using onExpand_toggles_header [of collapsed_grid 3 3 w example_expand example_collapse]
      collapsed_grid_header w wt wg
    by (simp add: Let_def example_expand_def wrow wprox wsrc wits wtr)
  obtain m where m: "group_header ''E'' True = Some m"
    by (simp add: group_header_def)
  have t: "truthy (field m GROUP_EXPANDED)"
    using m by (auto simp: group_header_def field_def GROUP_EXPANDED_def)
  have g: "isGrouping (Some m)"
    using m isGrouping_group_header [of "''E''" True] by simp
  have src: "(source expanded_store)[0 := group_header ''E'' False] =
      [group_header ''E'' False, data_row ''E'' 1, data_row ''E'' 2,
       group_header ''W'' True, data_row ''W'' 3]"
    by (simp add: expanded_store_def)
  have tr: "trimmed expanded_store = [TRIMMED_GROUPING \<mapsto> Map.empty]"
    by (simp add: expanded_store_def)
  have row: "row focus_grid = expanded_store" by (simp add: focus_grid_def)
  have first: "onExpand example_expand example_collapse 0 focus_grid =
       Inr (focus_grid\<lparr>row := expanded_store\<lparr>
              source := [group_header ''E'' False, data_row ''E'' 1, data_row ''E'' 2,
                         group_header ''W'' True, data_row ''W'' 3],
              trimmed := [TRIMMED_GROUPING \<mapsto> [1 \<mapsto> True, 2 \<mapsto> True]]\<rparr>,
            focus := None\<rparr>)"
    using onExpand_toggles_header [of focus_grid 0 0 m example_expand example_collapse]
      focus_grid_header m t g
    by (simp add: Let_def example_collapse_def row proxied_expanded_store src tr spreadTrimmed_def)
  show ?thesis
    using first second focus_grid_header collapsed_grid_header by simp
qed

text \<open>The claim as stated fails: the focus is on record 4, the collapse of the header at
  0 hides records 1 and 2 only, and the focus is cleared all the same.\<close>

theorem onExpand_focus_counterexample:
  "focus focus_grid = Some 4
   \<and> collapse_trimmed (example_collapse 0 (proxied (row focus_grid))) 4 = None
   \<and> map_sum id focus (onExpand example_expand example_collapse 0 focus_grid) = Inr None"
proof -
  obtain m where m: "group_header ''E'' True = Some m"
    by (simp add: group_header_def)
  have t: "truthy (field m GROUP_EXPANDED)"
    using m by (auto simp: group_header_def field_def GROUP_EXPANDED_def)
  show ?thesis
    using onExpand_collapse_branch [of focus_grid 0 0 m example_expand example_collapse]
      focus_grid_header m t
    by (simp add: Let_def) (simp add: focus_grid_def example_collapse_def)
qed



subsection \<open>What getSource gathers, in terms of the store\<close>

lemma getSource_filtered:
  "gather_source (getSource rs True) = filter (\<lambda>m. \<not> isGrouping m) (proxied rs)"
  by (simp add: getSource_def getSource_fold_source proxied_def)

lemma getSource_memory:
  "gather_prevExpanded (getSource rs True) = expansion_memory rs"
  by (rule ext) (simp add: getSource_def getSource_fold_prev expansion_memory_def)

subsection \<open>The hidden-row map\<close>

lemma row_clearGrouping_types [simp]: "row (clearGrouping_types ts g) = row g"
  by (induction ts arbitrary: g) (simp_all add: refreshByType_def Let_def split: prod.splits)

lemma row_setGrouping_columns [simp]: "row (setGrouping_columns ts g) = row g"
proof (induction ts arbitrary: g)
  case Nil
  then show ?case by simp
next
  case (Cons t ts)
  then show ?case
    by (cases "columns g t") (simp_all add: refreshByType_def)
qed

lemma trimmed_doSourceUpdate:
  "ns \<noteq> TRIMMED_GROUPING \<Longrightarrow>
     trimmed (row (doSourceUpdate gatherGrouping opts g)) ns = trimmed (row g) ns"
  by (simp add: doSourceUpdate_def Let_def addTrimmed_def setData_def split: option.splits)

lemma trimmed_onDataSet:
  "ns \<noteq> TRIMMED_GROUPING \<Longrightarrow>
     trimmed (row (snd (onDataSet gatherGrouping data g))) ns = trimmed (row g) ns"
  by (simp add: onDataSet_def Let_def addTrimmed_def provider_setGrouping_def
      split: option.splits)

lemma trimmed_setGrouping:
  "ns \<noteq> TRIMMED_GROUPING \<Longrightarrow> props cfg \<noteq> None \<Longrightarrow> props cfg \<noteq> Some [] \<Longrightarrow>
     trimmed (row (setGrouping cts gatherGrouping cfg g)) ns = trimmed (row g) ns"
  by (auto simp add: setGrouping_def Let_def subscribe_def clearSubscriptions_def
      trimmed_doSourceUpdate)

lemma trimmed_onExpand:
  assumes "ns \<noteq> TRIMMED_GROUPING" and "onExpand doExpand doCollapse virtualIndex g = Inr g'"
  shows "trimmed (row g') ns = trimmed (row g) ns"
  using assms
  by (auto simp: onExpand_def Let_def addTrimmed_def setSource_def setItems_def clearFocus_def
      split: option.splits if_splits sum.splits)

lemma trimmed_clearGrouping: "trimmed (row (clearGrouping cts g)) = Map.empty"
  by (simp add: clearGrouping_def Let_def setData_def)

lemma trimmed_setGrouping_off:
  "props cfg = None \<or> props cfg = Some [] \<Longrightarrow>
     trimmed (row (setGrouping cts gatherGrouping cfg g)) = Map.empty"
  by (auto simp: setGrouping_def Let_def trimmed_clearGrouping)




subsection \<open>Turning grouping off\<close>

lemma clearColumns_unflagged:
  "c \<in> set (fst (clearColumns cols)) \<Longrightarrow> \<not> isGroupingColumn c"
  by (auto simp: clearColumns_def isGroupingColumn_def)

lemma clearGrouping_types_keeps:
  "\<forall>c \<in> set (columns g t). \<not> isGroupingColumn c \<Longrightarrow>
     \<forall>c \<in> set (columns (clearGrouping_types ts g) t). \<not> isGroupingColumn c"
proof (induction ts arbitrary: g)
  case Nil
  then show ?case by simp
next
  case (Cons u ts)
  obtain cols' deleted where cc: "clearColumns (columns g u) = (cols', deleted)"
    by (cases "clearColumns (columns g u)")
  define g2 where "g2 = (if deleted then refreshByType u (g\<lparr>columns := (columns g)(u := cols')\<rparr>)
                         else g\<lparr>columns := (columns g)(u := cols')\<rparr>)"
  have step: "clearGrouping_types (u # ts) g = clearGrouping_types ts g2"
    by (simp add: cc g2_def Let_def)
  have cols: "columns g2 = (columns g)(u := cols')"
    by (simp add: g2_def refreshByType_def)
  have "\<forall>c \<in> set (columns g2 t). \<not> isGroupingColumn c"
  proof (cases "t = u")
    case True
    then show ?thesis
      using clearColumns_unflagged [of _ "columns g u"] cc by (auto simp: cols)
  next
    case False
    then show ?thesis using Cons.prems by (simp add: cols)
  qed
  then show ?case
    unfolding step by (rule Cons.IH)
qed

lemma clearGrouping_types_clears:
  "t \<in> set ts \<Longrightarrow> \<forall>c \<in> set (columns (clearGrouping_types ts g) t). \<not> isGroupingColumn c"
proof (induction ts arbitrary: g)
  case Nil
  then show ?case by simp
next
  case (Cons u ts)
  obtain cols' deleted where cc: "clearColumns (columns g u) = (cols', deleted)"
    by (cases "clearColumns (columns g u)")
  define g2 where "g2 = (if deleted then refreshByType u (g\<lparr>columns := (columns g)(u := cols')\<rparr>)
                         else g\<lparr>columns := (columns g)(u := cols')\<rparr>)"
  have step: "clearGrouping_types (u # ts) g = clearGrouping_types ts g2"
    by (simp add: cc g2_def Let_def)
  have cols: "columns g2 = (columns g)(u := cols')"
    by (simp add: g2_def refreshByType_def)
  show ?case
  proof (cases "t = u")
    case True
    have "\<forall>c \<in> set (columns g2 t). \<not> isGroupingColumn c"
      using True clearColumns_unflagged [of _ "columns g u"] cc by (auto simp: cols)
    then show ?thesis
      unfolding step by (rule clearGrouping_types_keeps)
  next
    case False
    with Cons.prems have "t \<in> set ts" by simp
    then show ?thesis
      unfolding step by (rule Cons.IH)
  qed
qed

lemma columns_clearGrouping:
  "columns (clearGrouping cts g) = columns (clearGrouping_types cts g)"
  by (simp add: clearGrouping_def Let_def)

lemma source_clearGrouping:
  "source (row (clearGrouping cts g)) = filter (\<lambda>m. \<not> isGrouping m) (proxied (row g))"
  by (simp add: clearGrouping_def Let_def setData_def getSource_filtered)

lemma grouping_clearGrouping:
  "trimmed (row (clearGrouping cts g)) TRIMMED_GROUPING = None"
  by (simp add: trimmed_clearGrouping)

lemma setGrouping_off:
  "props opts = None \<or> props opts = Some [] \<Longrightarrow>
     setGrouping cts gatherGrouping opts g =
       clearGrouping cts ((clearSubscriptions g)\<lparr>options := Some opts\<rparr>)"
  by (auto simp: setGrouping_def Let_def)

lemma example_column_unflagged [simp]: "\<not> isGroupingColumn (example_column name)"
  by (simp add: isGroupingColumn_def example_column_def PSEUDO_GROUP_COLUMN_def)

lemma example_column_flag [simp]: "example_column name PSEUDO_GROUP_COLUMN = None"
  by (simp add: example_column_def PSEUDO_GROUP_COLUMN_def)

lemma example_column_delete [simp]:
  "(example_column name)(PSEUDO_GROUP_COLUMN := None) = example_column name"
  by (rule fun_upd_idem) simp

lemma grouped_grid_proxied:
  "proxied (row ((clearSubscriptions grouped_grid)\<lparr>options := Some off_options\<rparr>)) =
     source example_store"
  by (simp add: clearSubscriptions_def grouped_grid_def proxied_def example_store_def source_at_def)

text \<open>
  Claim C3. After grouping is turned off (\<^verbatim>\<open>setGrouping\<close> with empty or absent key
  fields, which calls \<^verbatim>\<open>clearGrouping\<close>), the source sequence holds no group header, the
  "grouping" namespace of the hidden-row map is gone, and no column of any area of
  \<^verbatim>\<open>columnTypes\<close> carries the grouping-indicator flag.
\<close>

theorem setGrouping_off_clears:
  assumes "props opts = None \<or> props opts = Some []"
  shows "(\<forall>m \<in> set (source (row (setGrouping columnTypes gatherGrouping opts g))). \<not> isGrouping m)
     \<and> trimmed (row (setGrouping columnTypes gatherGrouping opts g)) TRIMMED_GROUPING = None
     \<and> (\<forall>t \<in> set columnTypes.
          \<forall>c \<in> set (columns (setGrouping columnTypes gatherGrouping opts g) t).
            \<not> isGroupingColumn c)"
proof -
  let ?g1 = "(clearSubscriptions g)\<lparr>options := Some opts\<rparr>"
  have eq: "setGrouping columnTypes gatherGrouping opts g = clearGrouping columnTypes ?g1"
    using assms by (rule setGrouping_off)
  have a: "\<forall>m \<in> set (source (row (clearGrouping columnTypes ?g1))). \<not> isGrouping m"
    by (simp add: source_clearGrouping)
  have b: "trimmed (row (clearGrouping columnTypes ?g1)) TRIMMED_GROUPING = None"
    by (rule grouping_clearGrouping)
  have c: "\<forall>t \<in> set columnTypes.
          \<forall>c \<in> set (columns (clearGrouping columnTypes ?g1) t). \<not> isGroupingColumn c"
    using clearGrouping_types_clears [of _ columnTypes ?g1]
    by (simp add: columns_clearGrouping)
  show ?thesis
    unfolding eq using a b c by blast
qed

theorem setGrouping_off_clears_witness:
  "props off_options = Some []
   \<and> source (row (setGrouping example_columnTypes example_builder off_options grouped_grid)) =
       [data_row ''E'' 1, data_row ''E'' 2, data_row ''W'' 3]
   \<and> trimmed (row grouped_grid) TRIMMED_GROUPING = Some [4 \<mapsto> True]
   \<and> trimmed (row (setGrouping example_columnTypes example_builder off_options grouped_grid))
       TRIMMED_GROUPING = None
   \<and> columns (setGrouping example_columnTypes example_builder off_options grouped_grid) ''rgCol'' =
       [example_column ''region'', example_column ''v'']"
proof -
  have p: "props off_options = Some []" by (simp add: off_options_def)
  have eq: "setGrouping example_columnTypes example_builder off_options grouped_grid =
      clearGrouping example_columnTypes ((clearSubscriptions grouped_grid)\<lparr>options := Some off_options\<rparr>)"
    using p by (simp add: setGrouping_off)
  have src: "source (row (setGrouping example_columnTypes example_builder off_options grouped_grid)) =
       [data_row ''E'' 1, data_row ''E'' 2, data_row ''W'' 3]"
    unfolding eq source_clearGrouping grouped_grid_proxied
    by (simp add: example_store_def)
  have before: "trimmed (row grouped_grid) TRIMMED_GROUPING = Some [4 \<mapsto> True]"
    by (simp add: grouped_grid_def example_store_def TRIMMED_GROUPING_def)
  have cols: "columns (setGrouping example_columnTypes example_builder off_options grouped_grid) ''rgCol'' =
       [example_column ''region'', example_column ''v'']"
    unfolding eq columns_clearGrouping
    by (simp add: example_columnTypes_def grouped_grid_def clearSubscriptions_def clearColumns_def
        refreshByType_def isGroupingColumn_def Let_def)
  show ?thesis
    using setGrouping_off_clears [of off_options example_columnTypes example_builder grouped_grid]
      p src before cols
    by simp
qed

subsection \<open>The grouping-indicator column\<close>

lemma columns_doSourceUpdate [simp]:
  "columns (doSourceUpdate gatherGrouping opts g) = columns g"
  by (simp add: doSourceUpdate_def Let_def split: option.splits)

lemma setGrouping_columns_none:
  "\<forall>u \<in> set ts. columns g u = [] \<Longrightarrow> setGrouping_columns ts g = g"
  by (induction ts) simp_all

lemma setGrouping_columns_first:
  assumes "\<forall>u \<in> set pre. columns g u = []" and "columns g t = c # cs"
  shows "setGrouping_columns (pre @ t # post) g =
     refreshByType t (g\<lparr>columns := (columns g)(t := c(PSEUDO_GROUP_COLUMN \<mapsto> JBool True) # cs)\<rparr>)"
  using assms by (induction pre) simp_all

lemma setGrouping_columns_cong:
  "columns g1 = columns g2 \<Longrightarrow>
     columns (setGrouping_columns cts g1) = columns (setGrouping_columns cts g2)"
proof (induction cts)
  case Nil
  then show ?case by simp
next
  case (Cons t ts)
  then show ?case
    by (cases "columns g2 t") (simp_all add: refreshByType_def)
qed

lemma setGrouping_on_columns:
  assumes "props opts = Some ps" and "ps \<noteq> []"
  shows "columns (setGrouping cts gatherGrouping opts g) = columns (setGrouping_columns cts g)"
proof -
  let ?g1 = "(clearSubscriptions g)\<lparr>options := Some opts\<rparr>"
  let ?g2 = "if gather_source (getSource (row ?g1) False) \<noteq> []
             then doSourceUpdate gatherGrouping (Some (spreadOptions opts)) ?g1 else ?g1"
  have "setGrouping cts gatherGrouping opts g = subscribe (setGrouping_columns cts ?g2)"
    using assms by (simp add: setGrouping_def Let_def)
  moreover have "columns ?g2 = columns g"
    by (simp add: clearSubscriptions_def)
  ultimately show ?thesis
    using setGrouping_columns_cong [of ?g2 g cts] by (simp add: subscribe_def)
qed

lemma setColumns_first:
  assumes "\<forall>u \<in> set pre. cols u = None \<or> cols u = Some []" and "cols t = Some (c # cs)"
  shows "setColumns (pre @ t # post) cols =
     cols(t \<mapsto> c(PSEUDO_GROUP_COLUMN \<mapsto> JBool True) # cs)"
  using assms by (induction pre) auto

lemma setColumns_none:
  "\<forall>u \<in> set ts. cols u = None \<or> cols u = Some [] \<Longrightarrow> setColumns ts cols = cols"
  by (induction ts) auto

lemma flagged_total_append:
  "flagged_total (xs @ ys) cols = flagged_total xs cols + flagged_total ys cols"
  by (simp add: flagged_total_def)

lemma flagged_total_zero:
  "\<forall>t \<in> set ts. \<forall>c \<in> set (cols t). \<not> isGroupingColumn c \<Longrightarrow> flagged_total ts cols = 0"
  by (induction ts) (simp_all add: flagged_total_def filter_empty_conv)

text \<open>
  Claim C6, as amended. When grouping is applied or applied again with non-empty keys
  to a column configuration in which some area holds a column, the first column of the
  first area, in the order of \<^verbatim>\<open>columnTypes\<close> (a list of distinct area names), that holds
  a column is flagged, and the scan stops there: no other column and no other area is
  changed. So exactly one column carries the flag afterwards, namely that one, whenever
  no other column carried it before.
\<close>

theorem setGrouping_flags_first_column:
  assumes "props opts = Some ps" and "ps \<noteq> []"
    and "distinct columnTypes"
    and "columnTypes = pre @ t # post"
    and "\<forall>u \<in> set pre. columns g u = []"
    and "columns g t = c # cs"
  shows "columns (setGrouping columnTypes gatherGrouping opts g) =
           (columns g)(t := c(PSEUDO_GROUP_COLUMN \<mapsto> JBool True) # cs)
     \<and> isGroupingColumn (c(PSEUDO_GROUP_COLUMN \<mapsto> JBool True))
     \<and> ((\<forall>x \<in> set cs. \<not> isGroupingColumn x)
          \<and> (\<forall>u \<in> set post. \<forall>x \<in> set (columns g u). \<not> isGroupingColumn x) \<longrightarrow>
        flagged_total columnTypes (columns (setGrouping columnTypes gatherGrouping opts g)) = 1)"
proof -
  let ?cols = "(columns g)(t := c(PSEUDO_GROUP_COLUMN \<mapsto> JBool True) # cs)"
  have cols: "columns (setGrouping columnTypes gatherGrouping opts g) = ?cols"
    using assms(1,2) setGrouping_columns_first [OF assms(5,6), of post]
    by (simp add: setGrouping_on_columns assms(4) refreshByType_def)
  have flag: "isGroupingColumn (c(PSEUDO_GROUP_COLUMN \<mapsto> JBool True))"
    by (simp add: isGroupingColumn_def)
  have count: "flagged_total columnTypes ?cols = 1"
    if rest: "\<forall>x \<in> set cs. \<not> isGroupingColumn x"
      and later: "\<forall>u \<in> set post. \<forall>x \<in> set (columns g u). \<not> isGroupingColumn x"
  proof -
    have t_notin: "t \<notin> set pre" "t \<notin> set post"
      using assms(3,4) by auto
    have pre0: "flagged_total pre ?cols = 0"
      using assms(5) t_notin by (intro flagged_total_zero) auto
    have post0: "flagged_total post ?cols = 0"
      using later t_notin by (intro flagged_total_zero) auto
    have mid: "flagged_total [t] ?cols = 1"
      using flag rest by (simp add: flagged_total_def filter_empty_conv)
    have "flagged_total columnTypes ?cols =
        flagged_total pre ?cols + (flagged_total [t] ?cols + flagged_total post ?cols)"
      unfolding assms(4) flagged_total_append [symmetric] by simp
    then show ?thesis
      by (simp add: pre0 post0 mid)
  qed
  show ?thesis
    using cols flag count by simp
qed

lemma example_columns_split:
  "props region_options = Some [''region'']
   \<and> distinct example_columnTypes
   \<and> example_columnTypes = [''colPinStart''] @ ''rgCol'' # [''colPinEnd'']"
  by (simp add: region_options_def example_columnTypes_def)

theorem setGrouping_flags_first_column_witness:
  "props region_options = Some [''region'']
   \<and> distinct example_columnTypes
   \<and> example_columnTypes = [''colPinStart''] @ ''rgCol'' # [''colPinEnd'']
   \<and> columns column_grid ''colPinStart'' = []
   \<and> columns column_grid ''rgCol'' = [example_column ''region'', example_column ''v'']
   \<and> columns (setGrouping example_columnTypes example_builder region_options column_grid) =
       (\<lambda>t. [])(''rgCol'' :=
          [(example_column ''region'')(PSEUDO_GROUP_COLUMN \<mapsto> JBool True), example_column ''v''])
   \<and> flagged_total example_columnTypes
         (columns (setGrouping example_columnTypes example_builder region_options column_grid)) = 1
   \<and> columns grouped_grid ''rgCol'' =
       [(example_column ''region'')(PSEUDO_GROUP_COLUMN \<mapsto> JBool True), example_column ''v'']
   \<and> columns (setGrouping example_columnTypes example_builder region_options grouped_grid) =
       columns grouped_grid
   \<and> flagged_total example_columnTypes
         (columns (setGrouping example_columnTypes example_builder region_options grouped_grid)) = 1"
proof -
  note split = example_columns_split
  have e: "\<forall>u \<in> set [''colPinStart'']. columns column_grid u = []"
    by (simp add: column_grid_def)
  have c: "columns column_grid ''rgCol'' = [example_column ''region'', example_column ''v'']"
    by (simp add: column_grid_def)
  have cols: "columns column_grid =
      (\<lambda>t. [])(''rgCol'' := [example_column ''region'', example_column ''v''])"
    by (simp add: column_grid_def)
  have later: "\<forall>u \<in> set [''colPinEnd'']. \<forall>x \<in> set (columns column_grid u). \<not> isGroupingColumn x"
    by (simp add: column_grid_def)
  have r: "columns (setGrouping example_columnTypes example_builder region_options column_grid) =
        (columns column_grid)(''rgCol'' :=
           (example_column ''region'')(PSEUDO_GROUP_COLUMN \<mapsto> JBool True) # [example_column ''v''])
     \<and> isGroupingColumn ((example_column ''region'')(PSEUDO_GROUP_COLUMN \<mapsto> JBool True))
     \<and> ((\<forall>x \<in> set [example_column ''v'']. \<not> isGroupingColumn x)
          \<and> (\<forall>u \<in> set [''colPinEnd'']. \<forall>x \<in> set (columns column_grid u). \<not> isGroupingColumn x)
        \<longrightarrow> flagged_total example_columnTypes
          (columns (setGrouping example_columnTypes example_builder region_options column_grid)) = 1)"
    using split e c
    by (intro setGrouping_flags_first_column [where ps = "[''region'']" and pre = "[''colPinStart'']"])
      simp_all
  have e': "\<forall>u \<in> set [''colPinStart'']. columns grouped_grid u = []"
    by (simp add: grouped_grid_def)
  have c': "columns grouped_grid ''rgCol'' =
      [(example_column ''region'')(PSEUDO_GROUP_COLUMN \<mapsto> JBool True), example_column ''v'']"
    by (simp add: grouped_grid_def)
  have later': "\<forall>u \<in> set [''colPinEnd'']. \<forall>x \<in> set (columns grouped_grid u). \<not> isGroupingColumn x"
    by (simp add: grouped_grid_def)
  have r': "columns (setGrouping example_columnTypes example_builder region_options grouped_grid) =
        (columns grouped_grid)(''rgCol'' :=
           ((example_column ''region'')(PSEUDO_GROUP_COLUMN \<mapsto> JBool True))
             (PSEUDO_GROUP_COLUMN \<mapsto> JBool True) # [example_column ''v''])
     \<and> isGroupingColumn (((example_column ''region'')(PSEUDO_GROUP_COLUMN \<mapsto> JBool True))
             (PSEUDO_GROUP_COLUMN \<mapsto> JBool True))
     \<and> ((\<forall>x \<in> set [example_column ''v'']. \<not> isGroupingColumn x)
          \<and> (\<forall>u \<in> set [''colPinEnd'']. \<forall>x \<in> set (columns grouped_grid u). \<not> isGroupingColumn x)
        \<longrightarrow> flagged_total example_columnTypes
          (columns (setGrouping example_columnTypes example_builder region_options grouped_grid)) = 1)"
    using split e' c'
    by (intro setGrouping_flags_first_column [where ps = "[''region'']" and pre = "[''colPinStart'']"])
      simp_all
  have same: "(columns grouped_grid)(''rgCol'' :=
           ((example_column ''region'')(PSEUDO_GROUP_COLUMN \<mapsto> JBool True))
             (PSEUDO_GROUP_COLUMN \<mapsto> JBool True) # [example_column ''v'']) = columns grouped_grid"
    by (simp add: grouped_grid_def)
  show ?thesis
  proof (intro conjI)
    show "props region_options = Some [''region'']" using split by blast
    show "distinct example_columnTypes" using split by blast
    show "example_columnTypes = [''colPinStart''] @ ''rgCol'' # [''colPinEnd'']"
      using split by blast
    show "columns column_grid ''colPinStart'' = []" by (simp add: column_grid_def)
    show "columns column_grid ''rgCol'' = [example_column ''region'', example_column ''v'']"
      by (rule c)
    show "columns (setGrouping example_columnTypes example_builder region_options column_grid) =
       (\<lambda>t. [])(''rgCol'' :=
          [(example_column ''region'')(PSEUDO_GROUP_COLUMN \<mapsto> JBool True), example_column ''v''])"
      using r by (simp add: cols)
    have "(\<forall>x \<in> set [example_column ''v'']. \<not> isGroupingColumn x)
          \<and> (\<forall>u \<in> set [''colPinEnd'']. \<forall>x \<in> set (columns column_grid u). \<not> isGroupingColumn x)"
      using later by simp
    with r show "flagged_total example_columnTypes
         (columns (setGrouping example_columnTypes example_builder region_options column_grid)) = 1"
      by blast
    show "columns grouped_grid ''rgCol'' =
       [(example_column ''region'')(PSEUDO_GROUP_COLUMN \<mapsto> JBool True), example_column ''v'']"
      by (rule c')
    show "columns (setGrouping example_columnTypes example_builder region_options grouped_grid) =
       columns grouped_grid"
      using r' same by simp
    have "(\<forall>x \<in> set [example_column ''v'']. \<not> isGroupingColumn x)
          \<and> (\<forall>u \<in> set [''colPinEnd'']. \<forall>x \<in> set (columns grouped_grid u). \<not> isGroupingColumn x)"
      using later' by simp
    with r' show "flagged_total example_columnTypes
         (columns (setGrouping example_columnTypes example_builder region_options grouped_grid)) = 1"
      by blast
  qed
qed

text \<open>When another column carries the flag already, here the second regular column,
  that flag stays and two columns carry it afterwards.\<close>

lemma setGrouping_keeps_other_flag:
  "flagged_total example_columnTypes
     (columns (setGrouping example_columnTypes example_builder region_options late_flag_grid)) = 2"
proof -
  have e: "\<forall>u \<in> set [''colPinStart'']. columns late_flag_grid u = []"
    by (simp add: late_flag_grid_def)
  have c: "columns late_flag_grid ''rgCol'' =
      [example_column ''region'', (example_column ''v'')(PSEUDO_GROUP_COLUMN \<mapsto> JBool True)]"
    by (simp add: late_flag_grid_def)
  have "columns (setGrouping example_columnTypes example_builder region_options late_flag_grid) =
      columns (setGrouping_columns ([''colPinStart''] @ ''rgCol'' # [''colPinEnd'']) late_flag_grid)"
    using example_columns_split by (simp add: setGrouping_on_columns)
  also have "\<dots> = (columns late_flag_grid)(''rgCol'' :=
      (example_column ''region'')(PSEUDO_GROUP_COLUMN \<mapsto> JBool True)
        # [(example_column ''v'')(PSEUDO_GROUP_COLUMN \<mapsto> JBool True)])"
    by (simp only: setGrouping_columns_first [OF e c]) (simp add: refreshByType_def)
  finally show ?thesis
    by (simp add: flagged_total_def example_columnTypes_def late_flag_grid_def
        isGroupingColumn_def)
qed

text \<open>The claim as stated fails: on a grid whose areas hold no column, grouping is
  applied and no column carries the flag.\<close>

theorem setGrouping_no_column_counterexample:
  "props region_options = Some [''region'']
   \<and> flagged_total example_columnTypes
        (columns (setGrouping example_columnTypes example_builder region_options focus_grid)) = 0"
proof -
  have p: "props region_options = Some [''region'']" by (simp add: region_options_def)
  have "columns (setGrouping example_columnTypes example_builder region_options focus_grid) =
      columns (setGrouping_columns example_columnTypes focus_grid)"
    using p by (simp add: setGrouping_on_columns)
  also have "\<dots> = columns focus_grid"
    by (simp add: setGrouping_columns_none focus_grid_def)
  finally have "flagged_total example_columnTypes
      (columns (setGrouping example_columnTypes example_builder region_options focus_grid)) = 0"
    by (simp add: flagged_total_zero focus_grid_def)
  with p show ?thesis by simp
qed

subsection \<open>Rebuild after a sort\<close>

lemma sorted_filtered:
  "filter (\<lambda>m. \<not> isGrouping m) (proxied (row sorted_grid)) =
     [data_row ''W'' 3, data_row ''E'' 2, data_row ''E'' 1]"
  by (simp add: proxied_def sorted_grid_def source_at_def)

lemma sorted_memory:
  "expansion_memory (row sorted_grid) = [''W'' \<mapsto> True]"
  by (rule ext) (auto simp: expansion_memory_def sorted_grid_def source_at_def)

lemma groupBy_region [simp]: "groupBy [''region''] (data_row r n) = Inr [JStr r]"
  by (simp add: groupBy_def data_row_def field_def)

lemma sorted_rebuilt:
  "example_builder [data_row ''W'' 3, data_row ''E'' 2, data_row ''E'' 1] (groupBy [''region''])
      \<lparr>prevExpanded = Some [''W'' \<mapsto> True], expanded_all = None\<rparr> =
     \<lparr>sourceWithGroups = [group_header ''W'' True, data_row ''W'' 3,
                          group_header ''E'' False, data_row ''E'' 2, data_row ''E'' 1],
      depth = 1,
      gather_trimmed = [4 \<mapsto> True, 3 \<mapsto> True]\<rparr>"
  by (simp add: example_builder_def header_for_def Let_def eval_nat_numeral)



end
